theory Spec2Isabelle
  imports
    Complex_Main
    "HOL-Library.Char_ord"
    "HOL-Library.List_Lexorder"
    "HOL-Library.Product_Lexorder"
    "HOL-Library.Sublist"
    "HOL-Library.Multiset"
begin

section \<open>The airline dashboard: data model\<close>

text \<open>
  The program \<^verbatim>\<open>airline_dashborad.py\<close> reads a CSV file into a pandas data frame,
  filters it by year and hands the filtered frame to one of two aggregators, whose five
  result tables become five charts.

  A data frame is modelled as the list of its rows, in row order. Every column of a
  data frame read from a CSV file may hold a missing value (pandas' \<^verbatim>\<open>NaN\<close>), so every
  field of a row is an \<open>option\<close>, with \<open>None\<close> for the missing value. Numeric columns
  are \<open>real\<close>: the arithmetic of the model is exact, rounding of 64-bit floats is not
  modelled. Only the columns the program reads are kept.
\<close>

record FlightRecord =
  Year :: "int option"
  Month :: "int option"
  Reporting_Airline :: "string option"
  CancellationCode :: "string option"
  AirTime :: "real option"
  OriginState :: "string option"
  DestState :: "string option"
  Flights :: "real option"
  DivAirportLandings :: "real option"
  CarrierDelay :: "real option"
  WeatherDelay :: "real option"
  NASDelay :: "real option"
  SecurityDelay :: "real option"
  LateAircraftDelay :: "real option"

type_synonym table = "FlightRecord list"

text \<open>\<^verbatim>\<open>year_list = [i for i in range(2005, 2021, 1)]\<close>\<close>

definition year_list :: "int list" where
  "year_list = [2005 .. 2020]"

section \<open>The pandas operations the program calls\<close>

text \<open>
  Element-wise comparison of a column with a scalar. A missing value is equal to nothing
  and different from everything: \<^verbatim>\<open>NaN == y\<close> is false, \<^verbatim>\<open>NaN != y\<close> is true.
\<close>

fun col_eq :: "'a option \<Rightarrow> 'a \<Rightarrow> bool" where
  "col_eq None y = False"
| "col_eq (Some x) y = (x = y)"

fun col_ne :: "'a option \<Rightarrow> 'a \<Rightarrow> bool" where
  "col_ne None y = True"
| "col_ne (Some x) y = (x \<noteq> y)"

text \<open>
  \<^verbatim>\<open>df.groupby([c1, c2])\<close> with pandas' defaults (\<^verbatim>\<open>dropna=True\<close>, \<^verbatim>\<open>sort=True\<close>):
  a row belongs to a group only when all its key columns are present; there is one group
  per distinct key, and the groups come in ascending key order. \<open>key2\<close> is the key of a
  row for a pair of key columns.
\<close>

definition key2 :: "('r \<Rightarrow> 'a option) \<Rightarrow> ('r \<Rightarrow> 'b option) \<Rightarrow> 'r \<Rightarrow> ('a \<times> 'b) option" where
  "key2 f g r =
     (case f r of
        None \<Rightarrow> None
      | Some a \<Rightarrow> (case g r of None \<Rightarrow> None | Some b \<Rightarrow> Some (a, b)))"

definition group_keys :: "('r \<Rightarrow> 'k::linorder option) \<Rightarrow> 'r list \<Rightarrow> 'k list" where
  "group_keys key df = sort (remdups (List.map_filter key df))"

definition group_rows :: "('r \<Rightarrow> 'k option) \<Rightarrow> 'r list \<Rightarrow> 'k \<Rightarrow> 'r list" where
  "group_rows key df k = filter (\<lambda>r. key r = Some k) df"

text \<open>
  \<^verbatim>\<open>.sum()\<close> and \<^verbatim>\<open>.mean()\<close> with pandas' default \<^verbatim>\<open>skipna=True\<close>: missing values are
  left out. The sum of no value is \<open>0\<close>; the mean of no value is \<^verbatim>\<open>NaN\<close>.
\<close>

definition series_sum :: "real option list \<Rightarrow> real" where
  "series_sum vs = sum_list (List.map_filter id vs)"

definition series_mean :: "real option list \<Rightarrow> real option" where
  "series_mean vs =
     (let xs = List.map_filter id vs
      in if xs = [] then None else Some (sum_list xs / real (length xs)))"

text \<open>\<^verbatim>\<open>df.groupby(keys)[col].sum().reset_index()\<close>: one row per group, key then sum.\<close>

definition groupby_sum ::
  "('r \<Rightarrow> 'k::linorder option) \<Rightarrow> ('r \<Rightarrow> real option) \<Rightarrow> 'r list \<Rightarrow> ('k \<times> real) list" where
  "groupby_sum key col df =
     map (\<lambda>k. (k, series_sum (map col (group_rows key df k)))) (group_keys key df)"

text \<open>\<^verbatim>\<open>df.groupby(keys)[col].mean().reset_index()\<close>: one row per group, key then mean.\<close>

definition groupby_mean ::
  "('r \<Rightarrow> 'k::linorder option) \<Rightarrow> ('r \<Rightarrow> real option) \<Rightarrow> 'r list \<Rightarrow> ('k \<times> real option) list" where
  "groupby_mean key col df =
     map (\<lambda>k. (k, series_mean (map col (group_rows key df k)))) (group_keys key df)"

text \<open>\<^verbatim>\<open>series.max()\<close>: the largest value of a column, \<^verbatim>\<open>NaN\<close> for an empty column.\<close>

definition series_max :: "real list \<Rightarrow> real option" where
  "series_max xs = (case xs of [] \<Rightarrow> None | y # ys \<Rightarrow> Some (fold max ys y))"

section \<open>The two aggregators\<close>

type_synonym mean_table = "((int \<times> string) \<times> real option) list"

definition compute_data_choice_1 ::
  "table \<Rightarrow> ((int \<times> string) \<times> real) list \<times> mean_table \<times> table
            \<times> (string \<times> real) list \<times> ((string \<times> string) \<times> real) list" where
  "compute_data_choice_1 df =
     (let bar_data = groupby_sum (key2 Month CancellationCode) Flights df;
          line_data = groupby_mean (key2 Month Reporting_Airline) AirTime df;
          div_data = filter (\<lambda>r. col_ne (DivAirportLandings r) 0) df;
          map_data = groupby_sum OriginState Flights df;
          tree_data = groupby_sum (key2 DestState Reporting_Airline) Flights df
      in (bar_data, line_data, div_data, map_data, tree_data))"

definition compute_data_choice_2 ::
  "table \<Rightarrow> mean_table \<times> mean_table \<times> mean_table \<times> mean_table \<times> mean_table" where
  "compute_data_choice_2 df =
     (let avg_car = groupby_mean (key2 Month Reporting_Airline) CarrierDelay df;
          avg_weather = groupby_mean (key2 Month Reporting_Airline) WeatherDelay df;
          avg_NAS = groupby_mean (key2 Month Reporting_Airline) NASDelay df;
          avg_sec = groupby_mean (key2 Month Reporting_Airline) SecurityDelay df;
          avg_late = groupby_mean (key2 Month Reporting_Airline) LateAircraftDelay df
      in (avg_car, avg_weather, avg_NAS, avg_sec, avg_late))"

text \<open>The components of the two result tuples, under the names the program gives them.\<close>

definition bar_data_of :: "'a \<times> 'b \<times> 'c \<times> 'd \<times> 'e \<Rightarrow> 'a" where
  "bar_data_of t = fst t"

definition line_data_of :: "'a \<times> 'b \<times> 'c \<times> 'd \<times> 'e \<Rightarrow> 'b" where
  "line_data_of t = fst (snd t)"

definition div_data_of :: "'a \<times> 'b \<times> 'c \<times> 'd \<times> 'e \<Rightarrow> 'c" where
  "div_data_of t = fst (snd (snd t))"

definition map_data_of :: "'a \<times> 'b \<times> 'c \<times> 'd \<times> 'e \<Rightarrow> 'd" where
  "map_data_of t = fst (snd (snd (snd t)))"

definition tree_data_of :: "'a \<times> 'b \<times> 'c \<times> 'd \<times> 'e \<Rightarrow> 'e" where
  "tree_data_of t = snd (snd (snd (snd t)))"

definition avg_car_of :: "'a \<times> 'b \<times> 'c \<times> 'd \<times> 'e \<Rightarrow> 'a" where
  "avg_car_of t = fst t"

definition avg_weather_of :: "'a \<times> 'b \<times> 'c \<times> 'd \<times> 'e \<Rightarrow> 'b" where
  "avg_weather_of t = fst (snd t)"

definition avg_NAS_of :: "'a \<times> 'b \<times> 'c \<times> 'd \<times> 'e \<Rightarrow> 'c" where
  "avg_NAS_of t = fst (snd (snd t))"

definition avg_sec_of :: "'a \<times> 'b \<times> 'c \<times> 'd \<times> 'e \<Rightarrow> 'd" where
  "avg_sec_of t = fst (snd (snd (snd t)))"

definition avg_late_of :: "'a \<times> 'b \<times> 'c \<times> 'd \<times> 'e \<Rightarrow> 'e" where
  "avg_late_of t = snd (snd (snd (snd t)))"

text \<open>The value column of a sum table: \<^verbatim>\<open>agg["Flights"]\<close>.\<close>

definition value_column :: "('k \<times> real) list \<Rightarrow> real option list" where
  "value_column agg = map (\<lambda>row. Some (snd row)) agg"

section \<open>The callback\<close>

text \<open>
  The year filter is the first line of \<^verbatim>\<open>get_graph\<close>:
  \<^verbatim>\<open>airline_data[airline_data["Year"] == int(year)]\<close>, a boolean mask on the frame.
\<close>

definition year_filter :: "table \<Rightarrow> int \<Rightarrow> table" where
  "year_filter airline_data y = filter (\<lambda>r. col_eq (Year r) y) airline_data"

text \<open>
  A chart is modelled by its kind, its title and the table it draws; the choropleth also
  carries the upper end of its colour range, \<^verbatim>\<open>map_data["Flights"].max()\<close>. A line chart
  carries the name of its y column.
\<close>

datatype figure =
    Bar string "((int \<times> string) \<times> real) list"
  | Line string string mean_table
  | Pie string table
  | Choropleth string "(string \<times> real) list" "real option"
  | Treemap string "((string \<times> string) \<times> real) list"

datatype error = TypeError

text \<open>
  \<^verbatim>\<open>get_graph(chart, year, children1, children2, c3, c4, c5)\<close>. The two selectors are
  \<open>None\<close> while nothing is selected. \<^verbatim>\<open>int(year)\<close> raises \<^verbatim>\<open>TypeError\<close> on \<^verbatim>\<open>None\<close>
  and is the identity on the integers the year dropdown offers. The data frame
  \<^verbatim>\<open>airline_data\<close> is a global of the program and a parameter here. The result is the
  list of the five charts, in the order of the five output slots.
\<close>

definition int_of_year :: "int option \<Rightarrow> error + int" where
  "int_of_year year = (case year of None \<Rightarrow> Inl TypeError | Some y \<Rightarrow> Inr y)"

text \<open>
  The two lists of charts that \<^verbatim>\<open>get_graph\<close> returns, one per branch: the calls of
  \<^verbatim>\<open>px.treemap\<close>, \<^verbatim>\<open>px.pie\<close>, \<^verbatim>\<open>px.choropleth\<close>, \<^verbatim>\<open>px.bar\<close> and \<^verbatim>\<open>px.line\<close> of
  the performance branch, and the five calls of \<^verbatim>\<open>px.line\<close> of the delay branch, in the
  order of the returned list.
\<close>

definition performance_figures ::
  "((int \<times> string) \<times> real) list \<times> mean_table \<times> table
     \<times> (string \<times> real) list \<times> ((string \<times> string) \<times> real) list \<Rightarrow> figure list" where
  "performance_figures t =
     (case t of (bar_data, line_data, div_data, map_data, tree_data) \<Rightarrow>
        [Treemap ''Flight count by airline to destination state'' tree_data,
         Pie ''% of flights by reporting airline'' div_data,
         Choropleth ''Number of flights from origin state'' map_data
           (series_max (map snd map_data)),
         Bar ''Monthly Flight Cancellation'' bar_data,
         Line ''AirTime'' ''Average monthly flight time (minutes) by airline'' line_data])"

definition delay_figures ::
  "mean_table \<times> mean_table \<times> mean_table \<times> mean_table \<times> mean_table \<Rightarrow> figure list" where
  "delay_figures t =
     (case t of (avg_car, avg_weather, avg_NAS, avg_sec, avg_late) \<Rightarrow>
        [Line ''CarrierDelay'' ''Average carrier delay time (minutes) by airline'' avg_car,
         Line ''WeatherDelay'' ''Average weather delay time (minutes) by airline'' avg_weather,
         Line ''NASDelay'' ''Average NAS delay time (minutes) by airline'' avg_NAS,
         Line ''SecurityDelay'' ''Average security delay time (minutes) by airline'' avg_sec,
         Line ''LateAircraftDelay''
           ''Average late aircraft delay time (minutes) by airline'' avg_late])"

definition get_graph ::
  "table \<Rightarrow> string option \<Rightarrow> int option
     \<Rightarrow> figure list \<Rightarrow> figure list \<Rightarrow> figure list \<Rightarrow> figure list \<Rightarrow> figure list
     \<Rightarrow> error + figure list" where
  "get_graph airline_data chart year children1 children2 c3 c4 c5 =
     (case int_of_year year of
        Inl e \<Rightarrow> Inl e
      | Inr y \<Rightarrow>
          (let df = year_filter airline_data y
           in if chart = Some ''OPT1''
              then Inr (performance_figures (compute_data_choice_1 df))
              else Inr (delay_figures (compute_data_choice_2 df))))"

section \<open>Vocabulary of the statements\<close>

text \<open>The value of a cell in a sum: a missing value adds nothing.\<close>

definition cell :: "real option \<Rightarrow> real" where
  "cell v = (case v of None \<Rightarrow> 0 | Some x \<Rightarrow> x)"

text \<open>
  The five delay causes, the column of each and the table that
  \<^verbatim>\<open>compute_data_choice_2\<close> returns for it.
\<close>

datatype cause = Carrier | Weather | NAS | Security | LateAircraft

fun delay_column :: "cause \<Rightarrow> FlightRecord \<Rightarrow> real option" where
  "delay_column Carrier = CarrierDelay"
| "delay_column Weather = WeatherDelay"
| "delay_column NAS = NASDelay"
| "delay_column Security = SecurityDelay"
| "delay_column LateAircraft = LateAircraftDelay"

fun delay_table ::
  "cause \<Rightarrow> mean_table \<times> mean_table \<times> mean_table \<times> mean_table \<times> mean_table \<Rightarrow> mean_table" where
  "delay_table Carrier t = avg_car_of t"
| "delay_table Weather t = avg_weather_of t"
| "delay_table NAS t = avg_NAS_of t"
| "delay_table Security t = avg_sec_of t"
| "delay_table LateAircraft t = avg_late_of t"

text \<open>A row with every field missing, from which the sample rows below are built.\<close>

definition blank_row :: FlightRecord where
  "blank_row =
     \<lparr>Year = None, Month = None, Reporting_Airline = None, CancellationCode = None,
      AirTime = None, OriginState = None, DestState = None, Flights = None,
      DivAirportLandings = None, CarrierDelay = None, WeatherDelay = None,
      NASDelay = None, SecurityDelay = None, LateAircraftDelay = None\<rparr>"

text \<open>
  A sample table for the delay report: three rows of airline AA in month 1, with carrier
  delays 10, missing and 20, and one row of airline DL without any delay value.
\<close>

definition sample_delays :: table where
  "sample_delays =
     [blank_row\<lparr>Year := Some 2010, Month := Some 1, Reporting_Airline := Some ''AA'',
        Flights := Some 1, CarrierDelay := Some 10\<rparr>,
      blank_row\<lparr>Year := Some 2010, Month := Some 1, Reporting_Airline := Some ''AA'',
        Flights := Some 1\<rparr>,
      blank_row\<lparr>Year := Some 2010, Month := Some 1, Reporting_Airline := Some ''AA'',
        Flights := Some 1, CarrierDelay := Some 20\<rparr>,
      blank_row\<lparr>Year := Some 2010, Month := Some 1, Reporting_Airline := Some ''DL'',
        Flights := Some 1\<rparr>]"

text \<open>A sample table with rows of the years 2010, 2005 and 2010.\<close>

definition sample_years :: table where
  "sample_years =
     [blank_row\<lparr>Year := Some 2010, Month := Some 3, Flights := Some 1\<rparr>,
      blank_row\<lparr>Year := Some 2005, Month := Some 7, Flights := Some 1\<rparr>,
      blank_row\<lparr>Year := Some 2010, Month := Some 1, Flights := Some 1\<rparr>]"

text \<open>
  The mean of a delay column over the group of a (\<^verbatim>\<open>Month\<close>, \<^verbatim>\<open>Reporting_Airline\<close>) key,
  as the specification words it: the rows of the group whose delay value is missing are
  left out of the numerator and of the denominator. A group none of whose rows has the
  delay value has no mean (\<^verbatim>\<open>NaN\<close>). The aggregator is compared with this below.
\<close>

definition null_aware_mean ::
  "(FlightRecord \<Rightarrow> real option) \<Rightarrow> table \<Rightarrow> int \<times> string \<Rightarrow> real option" where
  "null_aware_mean col df k =
     (let present = filter (\<lambda>r. Month r = Some (fst k) \<and> Reporting_Airline r = Some (snd k)
                              \<and> col r \<noteq> None) df
      in if present = [] then None
         else Some (sum_list (map (\<lambda>r. the (col r)) present) / real (length present)))"

text \<open>
  A sample table with values and gaps in each of the five delay columns: three rows of
  airline AA in month 1 and one row of airline DL in month 2 without any delay value.
\<close>

definition sample_causes :: table where
  "sample_causes =
     [blank_row\<lparr>Year := Some 2010, Month := Some 1, Reporting_Airline := Some ''AA'',
        CarrierDelay := Some 10, WeatherDelay := Some 4, SecurityDelay := Some 0,
        LateAircraftDelay := Some 6\<rparr>,
      blank_row\<lparr>Year := Some 2010, Month := Some 1, Reporting_Airline := Some ''AA'',
        NASDelay := Some 8\<rparr>,
      blank_row\<lparr>Year := Some 2010, Month := Some 1, Reporting_Airline := Some ''AA'',
        CarrierDelay := Some 20, NASDelay := Some 2, SecurityDelay := Some 0,
        LateAircraftDelay := Some 9\<rparr>,
      blank_row\<lparr>Year := Some 2010, Month := Some 2, Reporting_Airline := Some ''DL''\<rparr>]"

text \<open>
  A sample table that breaks the invariant of the data model on the year: one row of
  2010, one row without a year and one row of 2004.
\<close>

definition sample_stray_years :: table where
  "sample_stray_years =
     [blank_row\<lparr>Year := Some 2010, Month := Some 3, Flights := Some 1\<rparr>,
      blank_row\<lparr>Month := Some 5, Flights := Some 1\<rparr>,
      blank_row\<lparr>Year := Some 2004, Month := Some 7, Flights := Some 1\<rparr>]"

section \<open>Facts about grouping\<close>

lemma set_map_filter_keys: "set (List.map_filter f xs) = {y. \<exists>x\<in>set xs. f x = Some y}"
  by (induction xs) (auto split: option.splits)

lemma set_group_keys: "set (group_keys key df) = {k. \<exists>r\<in>set df. key r = Some k}"
  by (simp add: group_keys_def set_map_filter_keys)

lemma distinct_group_keys: "distinct (group_keys key df)"
  by (simp add: group_keys_def)

lemma sorted_group_keys: "sorted (group_keys key df)"
  by (simp add: group_keys_def)

lemma key2_eq_None: "key2 f g r = None \<longleftrightarrow> f r = None \<or> g r = None"
  by (simp add: key2_def split: option.splits)

lemma key2_eq_Some: "key2 f g r = Some (a, b) \<longleftrightarrow> f r = Some a \<and> g r = Some b"
  by (simp add: key2_def split: option.splits)

lemma col_ne_iff: "col_ne v y \<longleftrightarrow> v \<noteq> Some y"
  by (cases v) auto

lemma col_eq_iff: "col_eq v y \<longleftrightarrow> v = Some y"
  by (cases v) auto

section \<open>Sums over groups\<close>

lemma series_sum_Nil: "series_sum [] = 0"
  by (simp add: series_sum_def)

lemma series_sum_Cons: "series_sum (v # vs) = cell v + series_sum vs"
  by (cases v) (simp_all add: series_sum_def cell_def)

lemma series_sum_value_column: "series_sum (value_column agg) = sum_list (map snd agg)"
  by (induction agg) (simp_all add: value_column_def series_sum_def)

lemma sum_list_pick:
  "distinct ks \<Longrightarrow>
   sum_list (map (\<lambda>k. if a = Some k then (c::real) else 0) ks) =
     (if \<exists>k\<in>set ks. a = Some k then c else 0)"
  by (induction ks) auto

lemma group_sums_total:
  assumes "distinct ks"
  shows "sum_list (map (\<lambda>k. series_sum (map col (group_rows key df k))) ks) =
         series_sum (map col (filter (\<lambda>r. \<exists>k\<in>set ks. key r = Some k) df))"
proof (induction df)
  case Nil
  show ?case by (simp add: group_rows_def series_sum_Nil)
next
  case (Cons r df)
  have step: "series_sum (map col (group_rows key (r # df) k)) =
      (if key r = Some k then cell (col r) else 0) + series_sum (map col (group_rows key df k))"
    for k
    by (simp add: group_rows_def series_sum_Cons)
  have "sum_list (map (\<lambda>k. series_sum (map col (group_rows key (r # df) k))) ks) =
        sum_list (map (\<lambda>k. if key r = Some k then cell (col r) else 0) ks) +
        sum_list (map (\<lambda>k. series_sum (map col (group_rows key df k))) ks)"
    by (simp add: step sum_list_addf)
  also have "\<dots> = (if \<exists>k\<in>set ks. key r = Some k then cell (col r) else 0) +
        series_sum (map col (filter (\<lambda>r. \<exists>k\<in>set ks. key r = Some k) df))"
    by (simp only: sum_list_pick [OF assms] Cons.IH)
  also have "\<dots> = series_sum (map col (filter (\<lambda>r. \<exists>k\<in>set ks. key r = Some k) (r # df)))"
    by (simp add: series_sum_Cons)
  finally show ?case .
qed

lemma keyed_rows:
  "filter (\<lambda>r. \<exists>k\<in>set (group_keys key df). key r = Some k) df =
   filter (\<lambda>r. key r \<noteq> None) df"
  by (rule filter_cong) (auto simp: set_group_keys)

lemma groupby_sum_total:
  "series_sum (value_column (groupby_sum key col df)) =
   series_sum (map col (filter (\<lambda>r. key r \<noteq> None) df))"
proof -
  have "series_sum (value_column (groupby_sum key col df)) =
        sum_list (map (\<lambda>k. series_sum (map col (group_rows key df k))) (group_keys key df))"
    by (simp add: series_sum_value_column groupby_sum_def comp_def)
  also have "\<dots> = series_sum (map col
      (filter (\<lambda>r. \<exists>k\<in>set (group_keys key df). key r = Some k) df))"
    by (rule group_sums_total [OF distinct_group_keys])
  finally show ?thesis by (simp only: keyed_rows)
qed

section \<open>The performance aggregator\<close>

text \<open>
  Claim C1, as the specification states it: each of the three sum tables of
  \<^verbatim>\<open>compute_data_choice_1\<close> (\<^verbatim>\<open>bar_data\<close>, \<^verbatim>\<open>map_data\<close>, \<^verbatim>\<open>tree_data\<close>) has the same total
  of \<^verbatim>\<open>Flights\<close> as the year-filtered rows it was computed from. It fails on a
  year-filtered table whose only row has no cancellation code (a flight that was not
  cancelled): \<^verbatim>\<open>groupby\<close> drops the row, \<^verbatim>\<open>bar_data\<close> is empty and its total is 0,
  while the row counts one flight.
\<close>

theorem sum_aggregates_total_counterexample:
  "series_sum (value_column (bar_data_of (compute_data_choice_1
      (year_filter
        [blank_row\<lparr>Year := Some 2010, Month := Some 1, Reporting_Airline := Some ''AA'',
           OriginState := Some ''TX'', DestState := Some ''CA'', Flights := Some 1\<rparr>]
        2010)))) = 0
   \<and> series_sum (map Flights
      (year_filter
        [blank_row\<lparr>Year := Some 2010, Month := Some 1, Reporting_Airline := Some ''AA'',
           OriginState := Some ''TX'', DestState := Some ''CA'', Flights := Some 1\<rparr>]
        2010)) = 1"
  by (simp add: blank_row_def year_filter_def compute_data_choice_1_def bar_data_of_def
      groupby_sum_def group_keys_def group_rows_def key2_def series_sum_def
      value_column_def)

text \<open>
  Claim C1, amended: the total of each sum table equals the total of \<^verbatim>\<open>Flights\<close> over
  the input rows whose grouping columns are all present; rows with a missing grouping
  column are left out of the table. (Where no row misses a grouping column, this is the
  total over all input rows.)
\<close>

theorem sum_aggregates_total:
  "series_sum (value_column (bar_data_of (compute_data_choice_1 df))) =
     series_sum (map Flights
       (filter (\<lambda>r. Month r \<noteq> None \<and> CancellationCode r \<noteq> None) df))
   \<and> series_sum (value_column (map_data_of (compute_data_choice_1 df))) =
     series_sum (map Flights (filter (\<lambda>r. OriginState r \<noteq> None) df))
   \<and> series_sum (value_column (tree_data_of (compute_data_choice_1 df))) =
     series_sum (map Flights
       (filter (\<lambda>r. DestState r \<noteq> None \<and> Reporting_Airline r \<noteq> None) df))"
  by (simp add: compute_data_choice_1_def bar_data_of_def map_data_of_def tree_data_of_def
      groupby_sum_total key2_eq_None)

text \<open>
  Claim C8: on the table of the two rows (2010, month 1, airline AA, cancellation code A)
  with 1 and 2 flights, whatever their other columns hold, \<^verbatim>\<open>bar_data\<close> is the single
  row (month 1, code A, 3 flights); the year filter for 2010 keeps both rows.
\<close>

theorem monthly_cancellation_scenario:
  "bar_data_of (compute_data_choice_1
     [b1\<lparr>Year := Some 2010, Month := Some 1, Reporting_Airline := Some ''AA'',
         CancellationCode := Some ''A'', Flights := Some 1\<rparr>,
      b2\<lparr>Year := Some 2010, Month := Some 1, Reporting_Airline := Some ''AA'',
         CancellationCode := Some ''A'', Flights := Some 2\<rparr>])
   = [((1, ''A''), 3)]
   \<and> bar_data_of (compute_data_choice_1 (year_filter
     [b1\<lparr>Year := Some 2010, Month := Some 1, Reporting_Airline := Some ''AA'',
         CancellationCode := Some ''A'', Flights := Some 1\<rparr>,
      b2\<lparr>Year := Some 2010, Month := Some 1, Reporting_Airline := Some ''AA'',
         CancellationCode := Some ''A'', Flights := Some 2\<rparr>] 2010))
   = [((1, ''A''), 3)]"
  by (simp add: bar_data_of_def compute_data_choice_1_def year_filter_def groupby_sum_def
      group_keys_def group_rows_def key2_def series_sum_def)

text \<open>
  Claim C7: \<^verbatim>\<open>div_data\<close> is a filter of the input, not a reduction. It is the list of
  the input rows whose \<^verbatim>\<open>DivAirportLandings\<close> is not the number 0, each row as it is in
  the input (all columns), in input order, as often as the input has it.
\<close>

theorem div_data_is_filter:
  "div_data_of (compute_data_choice_1 df) = filter (\<lambda>r. DivAirportLandings r \<noteq> Some 0) df
   \<and> set (div_data_of (compute_data_choice_1 df)) =
       {r. r \<in> set df \<and> DivAirportLandings r \<noteq> Some 0}
   \<and> subseq (div_data_of (compute_data_choice_1 df)) df
   \<and> count_list (div_data_of (compute_data_choice_1 df)) r =
       (if DivAirportLandings r \<noteq> Some 0 then count_list df r else 0)"
proof -
  have eq: "div_data_of (compute_data_choice_1 df) =
      filter (\<lambda>r. DivAirportLandings r \<noteq> Some 0) df"
    by (simp add: compute_data_choice_1_def div_data_of_def col_ne_iff)
  have cnt: "count_list (filter P xs) x = (if P x then count_list xs x else 0)"
    for P and xs :: "FlightRecord list" and x
    by (induction xs) auto
  show ?thesis
    unfolding eq by (auto simp: cnt)
qed

text \<open>
  Claim C3, as the specification states it: a row whose \<^verbatim>\<open>DivAirportLandings\<close> is
  missing is not in \<^verbatim>\<open>div_data\<close>. It fails on the table of one such row: the comparison
  \<^verbatim>\<open>NaN != 0.0\<close> is true and the row is kept.
\<close>

theorem div_data_null_counterexample:
  "div_data_of (compute_data_choice_1
     [blank_row\<lparr>Year := Some 2010, Month := Some 1, Reporting_Airline := Some ''AA'',
        Flights := Some 1, DivAirportLandings := None\<rparr>])
   = [blank_row\<lparr>Year := Some 2010, Month := Some 1, Reporting_Airline := Some ''AA'',
        Flights := Some 1, DivAirportLandings := None\<rparr>]"
  by (simp add: compute_data_choice_1_def div_data_of_def blank_row_def)

text \<open>
  Claim C3, amended: a row of the input whose \<^verbatim>\<open>DivAirportLandings\<close> is missing is in
  \<^verbatim>\<open>div_data\<close>.
\<close>

theorem div_data_keeps_null:
  assumes "r \<in> set df" and "DivAirportLandings r = None"
  shows "r \<in> set (div_data_of (compute_data_choice_1 df))"
  using assms by (simp add: compute_data_choice_1_def div_data_of_def)

theorem div_data_keeps_null_witness:
  "blank_row\<lparr>Flights := Some 1\<rparr>
     \<in> set (div_data_of (compute_data_choice_1
         [blank_row\<lparr>Flights := Some 1, DivAirportLandings := Some 0\<rparr>,
          blank_row\<lparr>Flights := Some 1\<rparr>]))"
  using div_data_keeps_null
    [of "blank_row\<lparr>Flights := Some 1\<rparr>"
        "[blank_row\<lparr>Flights := Some 1, DivAirportLandings := Some 0\<rparr>,
          blank_row\<lparr>Flights := Some 1\<rparr>]"]
  by (simp add: blank_row_def)

section \<open>Means over groups\<close>

lemma present_values:
  "List.map_filter id (map col rows) = map (\<lambda>r. the (col r)) (filter (\<lambda>r. col r \<noteq> None) rows)"
  by (induction rows) (auto split: option.splits)

lemma series_mean_present:
  "series_mean (map col rows) =
     (if filter (\<lambda>r. col r \<noteq> None) rows = [] then None
      else Some (sum_list (map (\<lambda>r. the (col r)) (filter (\<lambda>r. col r \<noteq> None) rows))
                 / real (length (filter (\<lambda>r. col r \<noteq> None) rows))))"
  by (simp add: series_mean_def present_values)

lemma series_mean_eq_None:
  "series_mean (map col rows) = None \<longleftrightarrow> (\<forall>r\<in>set rows. col r = None)"
  by (simp add: series_mean_present filter_empty_conv)

lemma series_mean_drop_null:
  "series_mean (map col (filter (\<lambda>r. col r \<noteq> None) rows)) = series_mean (map col rows)"
  by (simp add: series_mean_present)

lemma group_rows_filter:
  "group_rows key (filter P df) k = filter P (group_rows key df k)"
  by (auto simp: group_rows_def intro: filter_cong)

lemma set_group_rows: "set (group_rows key df k) = {r. r \<in> set df \<and> key r = Some k}"
  by (simp add: group_rows_def)

lemma groupby_mean_entry:
  assumes "(k, m) \<in> set (groupby_mean key col df)"
  shows "m = series_mean (map col (group_rows key df k))"
  using assms by (auto simp: groupby_mean_def)

lemma group_keys_drop_null:
  "group_keys key (filter (\<lambda>r. col r \<noteq> None) df) =
   filter (\<lambda>k. series_mean (map col (group_rows key df k)) \<noteq> None) (group_keys key df)"
proof (rule sorted_distinct_set_unique)
  show "sorted (group_keys key (filter (\<lambda>r. col r \<noteq> None) df))"
    by (rule sorted_group_keys)
  show "distinct (group_keys key (filter (\<lambda>r. col r \<noteq> None) df))"
    by (rule distinct_group_keys)
  show "sorted (filter (\<lambda>k. series_mean (map col (group_rows key df k)) \<noteq> None)
      (group_keys key df))"
    by (rule sorted_wrt_filter) (rule sorted_group_keys)
  show "distinct (filter (\<lambda>k. series_mean (map col (group_rows key df k)) \<noteq> None)
      (group_keys key df))"
    by (rule distinct_filter) (rule distinct_group_keys)
  show "set (group_keys key (filter (\<lambda>r. col r \<noteq> None) df)) =
      set (filter (\<lambda>k. series_mean (map col (group_rows key df k)) \<noteq> None)
        (group_keys key df))"
    by (auto simp: set_group_keys series_mean_eq_None set_group_rows)
qed

lemma groupby_mean_drop_null:
  "groupby_mean key col (filter (\<lambda>r. col r \<noteq> None) df) =
   filter (\<lambda>row. snd row \<noteq> None) (groupby_mean key col df)"
  by (simp add: groupby_mean_def group_keys_drop_null filter_map comp_def
      group_rows_filter series_mean_drop_null del: not_None_eq)

lemma group_keys_empty: "group_keys key df = [] \<longleftrightarrow> (\<forall>r\<in>set df. key r = None)"
proof -
  have "group_keys key df = [] \<longleftrightarrow> set (group_keys key df) = {}"
    by simp
  also have "\<dots> \<longleftrightarrow> (\<forall>r\<in>set df. key r = None)"
    unfolding set_group_keys by (auto simp: Bex_def) (metis not_None_eq)
  finally show ?thesis .
qed

lemma groupby_mean_all_null:
  assumes "\<forall>r\<in>set df. col r = None"
  shows "groupby_mean key col df = map (\<lambda>k. (k, None)) (group_keys key df)"
proof -
  have "series_mean (map col (group_rows key df k)) = None" for k
    using assms by (simp add: series_mean_eq_None set_group_rows)
  then show ?thesis
    by (simp add: groupby_mean_def)
qed

lemma delay_table_groupby:
  "delay_table c (compute_data_choice_2 df) =
   groupby_mean (key2 Month Reporting_Airline) (delay_column c) df"
  by (cases c)
    (simp_all add: compute_data_choice_2_def avg_car_of_def avg_weather_of_def
      avg_NAS_of_def avg_sec_of_def avg_late_of_def)

section \<open>The delay aggregator\<close>

text \<open>
  Claim C4, as the specification states it: where no row has a \<^verbatim>\<open>WeatherDelay\<close>,
  \<^verbatim>\<open>avg_weather\<close> has no rows. It fails on the table of one row (month 1, airline AA)
  without weather delay: the group of the row is formed from its key columns, its mean
  is \<^verbatim>\<open>NaN\<close>, and \<^verbatim>\<open>avg_weather\<close> has that one row.
\<close>

theorem avg_weather_all_null_counterexample:
  "avg_weather_of (compute_data_choice_2
     [blank_row\<lparr>Year := Some 2020, Month := Some 1, Reporting_Airline := Some ''AA'',
        Flights := Some 1, WeatherDelay := None\<rparr>])
   = [((1, ''AA''), None)]"
  by (simp add: compute_data_choice_2_def avg_weather_of_def blank_row_def groupby_mean_def
      group_keys_def group_rows_def key2_def series_mean_def)

text \<open>
  Claim C4, amended: where no row has a \<^verbatim>\<open>WeatherDelay\<close>, \<^verbatim>\<open>avg_weather\<close> has one row
  for each distinct pair (\<^verbatim>\<open>Month\<close>, \<^verbatim>\<open>Reporting_Airline\<close>) that occurs in the input, in
  ascending order, and the mean of every row is missing (\<^verbatim>\<open>NaN\<close>, not zero). The table
  is empty only when no input row has both key columns.
\<close>

theorem avg_weather_all_null:
  assumes "\<forall>r\<in>set df. WeatherDelay r = None"
  shows "map snd (avg_weather_of (compute_data_choice_2 df)) =
           replicate (length (avg_weather_of (compute_data_choice_2 df))) None
       \<and> set (map fst (avg_weather_of (compute_data_choice_2 df))) =
           {(m, a). \<exists>r\<in>set df. Month r = Some m \<and> Reporting_Airline r = Some a}
       \<and> distinct (map fst (avg_weather_of (compute_data_choice_2 df)))
       \<and> sorted (map fst (avg_weather_of (compute_data_choice_2 df)))
       \<and> (avg_weather_of (compute_data_choice_2 df) = [] \<longleftrightarrow>
           (\<forall>r\<in>set df. Month r = None \<or> Reporting_Airline r = None))"
proof -
  let ?key = "key2 Month Reporting_Airline"
  have tbl: "avg_weather_of (compute_data_choice_2 df) =
      map (\<lambda>k. (k, None)) (group_keys ?key df)"
    using groupby_mean_all_null [of df WeatherDelay ?key] assms
    by (simp add: compute_data_choice_2_def avg_weather_of_def)
  have keys: "map fst (avg_weather_of (compute_data_choice_2 df)) = group_keys ?key df"
    by (simp add: tbl comp_def)
  have means: "map snd (avg_weather_of (compute_data_choice_2 df)) =
      replicate (length (avg_weather_of (compute_data_choice_2 df))) None"
    by (simp add: tbl comp_def map_replicate_const)
  have dom: "set (group_keys ?key df) =
      {(m, a). \<exists>r\<in>set df. Month r = Some m \<and> Reporting_Airline r = Some a}"
    by (auto simp: set_group_keys key2_eq_Some)
  have "avg_weather_of (compute_data_choice_2 df) = [] \<longleftrightarrow> group_keys ?key df = []"
    by (simp add: tbl)
  also have "\<dots> \<longleftrightarrow> (\<forall>r\<in>set df. ?key r = None)"
    by (rule group_keys_empty)
  finally have empty: "avg_weather_of (compute_data_choice_2 df) = [] \<longleftrightarrow>
      (\<forall>r\<in>set df. Month r = None \<or> Reporting_Airline r = None)"
    by (simp add: key2_eq_None)
  show ?thesis
    using means empty by (simp add: keys dom distinct_group_keys sorted_group_keys)
qed

theorem avg_weather_all_null_witness:
  "map snd (avg_weather_of (compute_data_choice_2
      [blank_row\<lparr>Month := Some 2, Reporting_Airline := Some ''DL'', CarrierDelay := Some 4\<rparr>,
       blank_row\<lparr>Month := Some 1, Reporting_Airline := Some ''AA''\<rparr>]))
     = [None, None]
   \<and> map fst (avg_weather_of (compute_data_choice_2
      [blank_row\<lparr>Month := Some 2, Reporting_Airline := Some ''DL'', CarrierDelay := Some 4\<rparr>,
       blank_row\<lparr>Month := Some 1, Reporting_Airline := Some ''AA''\<rparr>]))
     = [(1, ''AA''), (2, ''DL'')]"
proof -
  let ?df = "[blank_row\<lparr>Month := Some 2, Reporting_Airline := Some ''DL'',
                 CarrierDelay := Some 4\<rparr>,
              blank_row\<lparr>Month := Some 1, Reporting_Airline := Some ''AA''\<rparr>]"
  have hyp: "\<forall>r\<in>set ?df. WeatherDelay r = None"
    by (simp add: blank_row_def)
  have keys: "map fst (avg_weather_of (compute_data_choice_2 ?df)) = [(1, ''AA''), (2, ''DL'')]"
    by (simp add: compute_data_choice_2_def avg_weather_of_def blank_row_def groupby_mean_def
        group_keys_def group_rows_def key2_def less_eq_prod_def less_prod_def)
  then have len: "length (avg_weather_of (compute_data_choice_2 ?df)) = 2"
    by (metis length_map length_Cons list.size(3) numeral_2_eq_2)
  show ?thesis
    using avg_weather_all_null [OF hyp] keys len by (simp add: numeral_2_eq_2)
qed

lemma group_present_rows:
  "filter (\<lambda>r. col r \<noteq> None) (group_rows (key2 Month Reporting_Airline) df k) =
   filter (\<lambda>r. Month r = Some (fst k) \<and> Reporting_Airline r = Some (snd k) \<and> col r \<noteq> None) df"
  by (cases k) (auto simp: group_rows_def key2_eq_Some intro: filter_cong)

lemma series_mean_null_aware:
  "series_mean (map col (group_rows (key2 Month Reporting_Airline) df k)) =
   null_aware_mean col df k"
  by (simp only: series_mean_present group_present_rows null_aware_mean_def Let_def)

lemma groupby_mean_null_aware:
  "groupby_mean (key2 Month Reporting_Airline) col df =
   map (\<lambda>k. (k, null_aware_mean col df k)) (group_keys (key2 Month Reporting_Airline) df)"
  by (simp only: groupby_mean_def series_mean_null_aware)

lemma month_airline_keys:
  "set (group_keys (key2 Month Reporting_Airline) df) =
   {(m, a). \<exists>r\<in>set df. Month r = Some m \<and> Reporting_Airline r = Some a}"
  by (auto simp: set_group_keys key2_eq_Some)

text \<open>
  Claim C5: for each of the five delay causes, \<^verbatim>\<open>compute_data_choice_2\<close> returns a table
  with exactly one row for each distinct (\<^verbatim>\<open>Month\<close>, \<^verbatim>\<open>Reporting_Airline\<close>) pair that
  occurs in the input, in ascending order, and the mean of that row is the sum of the
  delay values present in the group divided by the number of rows of the group that have
  one: rows without the delay value count neither in the numerator nor in the
  denominator (and a group with no delay value at all has the mean \<^verbatim>\<open>NaN\<close>). Deleting
  the rows without the delay value from the input changes no mean: it only removes the
  groups whose mean was \<^verbatim>\<open>NaN\<close>.
\<close>

theorem delay_mean_null_aware:
  "delay_table c (compute_data_choice_2 df) =
     map (\<lambda>k. (k, null_aware_mean (delay_column c) df k))
       (group_keys (key2 Month Reporting_Airline) df)
   \<and> map fst (delay_table c (compute_data_choice_2 df)) =
       group_keys (key2 Month Reporting_Airline) df
   \<and> set (map fst (delay_table c (compute_data_choice_2 df))) =
       {(m, a). \<exists>r\<in>set df. Month r = Some m \<and> Reporting_Airline r = Some a}
   \<and> distinct (map fst (delay_table c (compute_data_choice_2 df)))
   \<and> sorted (map fst (delay_table c (compute_data_choice_2 df)))
   \<and> (\<forall>mo a. (\<exists>r\<in>set df. Month r = Some mo \<and> Reporting_Airline r = Some a) \<longrightarrow>
        ((mo, a), null_aware_mean (delay_column c) df (mo, a))
          \<in> set (delay_table c (compute_data_choice_2 df)))
   \<and> (\<forall>k m. (k, m) \<in> set (delay_table c (compute_data_choice_2 df)) \<longrightarrow>
        m = (if filter (\<lambda>r. Month r = Some (fst k) \<and> Reporting_Airline r = Some (snd k)
                        \<and> delay_column c r \<noteq> None) df = []
              then None
              else Some
                (sum_list (map (\<lambda>r. the (delay_column c r))
                   (filter (\<lambda>r. Month r = Some (fst k) \<and> Reporting_Airline r = Some (snd k)
                        \<and> delay_column c r \<noteq> None) df))
                 / real (length
                   (filter (\<lambda>r. Month r = Some (fst k) \<and> Reporting_Airline r = Some (snd k)
                        \<and> delay_column c r \<noteq> None) df)))))
   \<and> delay_table c (compute_data_choice_2 (filter (\<lambda>r. delay_column c r \<noteq> None) df)) =
       filter (\<lambda>row. snd row \<noteq> None) (delay_table c (compute_data_choice_2 df))"
proof -
  let ?key = "key2 Month Reporting_Airline"
  let ?tbl = "delay_table c (compute_data_choice_2 df)"
  have tbl: "?tbl = map (\<lambda>k. (k, null_aware_mean (delay_column c) df k)) (group_keys ?key df)"
    by (simp only: delay_table_groupby groupby_mean_null_aware)
  have keys: "map fst ?tbl = group_keys ?key df"
    by (simp add: tbl comp_def)
  have dom: "set (map fst ?tbl) =
      {(m, a). \<exists>r\<in>set df. Month r = Some m \<and> Reporting_Airline r = Some a}"
    by (simp only: keys month_airline_keys)
  have dist: "distinct (map fst ?tbl)"
    by (simp only: keys distinct_group_keys)
  have asc: "sorted (map fst ?tbl)"
    by (simp only: keys sorted_group_keys)
  have listed: "((mo, a), null_aware_mean (delay_column c) df (mo, a)) \<in> set ?tbl"
    if "\<exists>r\<in>set df. Month r = Some mo \<and> Reporting_Airline r = Some a" for mo a
  proof -
    from that have "(mo, a) \<in> set (group_keys ?key df)"
      by (simp only: month_airline_keys) simp
    then show ?thesis
      by (simp only: tbl set_map) (rule imageI)
  qed
  have entry: "m = (if filter (\<lambda>r. Month r = Some (fst k) \<and> Reporting_Airline r = Some (snd k)
                        \<and> delay_column c r \<noteq> None) df = []
              then None
              else Some
                (sum_list (map (\<lambda>r. the (delay_column c r))
                   (filter (\<lambda>r. Month r = Some (fst k) \<and> Reporting_Airline r = Some (snd k)
                        \<and> delay_column c r \<noteq> None) df))
                 / real (length
                   (filter (\<lambda>r. Month r = Some (fst k) \<and> Reporting_Airline r = Some (snd k)
                        \<and> delay_column c r \<noteq> None) df))))"
    if "(k, m) \<in> set ?tbl" for k m
  proof -
    from that have "m = null_aware_mean (delay_column c) df k"
      by (auto simp: tbl)
    then show ?thesis
      by (simp only: null_aware_mean_def Let_def)
  qed
  have drop: "delay_table c (compute_data_choice_2 (filter (\<lambda>r. delay_column c r \<noteq> None) df)) =
       filter (\<lambda>row. snd row \<noteq> None) ?tbl"
    by (simp only: delay_table_groupby groupby_mean_drop_null)
  show ?thesis
  proof (intro conjI allI impI)
    show "?tbl = map (\<lambda>k. (k, null_aware_mean (delay_column c) df k)) (group_keys ?key df)"
      by (rule tbl)
    show "map fst ?tbl = group_keys ?key df"
      by (rule keys)
    show "set (map fst ?tbl) =
        {(m, a). \<exists>r\<in>set df. Month r = Some m \<and> Reporting_Airline r = Some a}"
      by (rule dom)
    show "distinct (map fst ?tbl)"
      by (rule dist)
    show "sorted (map fst ?tbl)"
      by (rule asc)
    show "((mo, a), null_aware_mean (delay_column c) df (mo, a)) \<in> set ?tbl"
      if "\<exists>r\<in>set df. Month r = Some mo \<and> Reporting_Airline r = Some a" for mo a
      using that by (rule listed)
    show "m = (if filter (\<lambda>r. Month r = Some (fst k) \<and> Reporting_Airline r = Some (snd k)
                        \<and> delay_column c r \<noteq> None) df = []
              then None
              else Some
                (sum_list (map (\<lambda>r. the (delay_column c r))
                   (filter (\<lambda>r. Month r = Some (fst k) \<and> Reporting_Airline r = Some (snd k)
                        \<and> delay_column c r \<noteq> None) df))
                 / real (length
                   (filter (\<lambda>r. Month r = Some (fst k) \<and> Reporting_Airline r = Some (snd k)
                        \<and> delay_column c r \<noteq> None) df))))"
      if "(k, m) \<in> set ?tbl" for k m
      using that by (rule entry)
    show "delay_table c (compute_data_choice_2 (filter (\<lambda>r. delay_column c r \<noteq> None) df)) =
       filter (\<lambda>row. snd row \<noteq> None) ?tbl"
      by (rule drop)
  qed
qed

lemma sample_causes_keys:
  "group_keys (key2 Month Reporting_Airline) sample_causes = [(1, ''AA''), (2, ''DL'')]"
  by (simp add: sample_causes_def blank_row_def group_keys_def key2_def
      less_eq_prod_def less_prod_def)

lemma sample_causes_means:
  "null_aware_mean CarrierDelay sample_causes (1, ''AA'') = Some 15"
  "null_aware_mean WeatherDelay sample_causes (1, ''AA'') = Some 4"
  "null_aware_mean NASDelay sample_causes (1, ''AA'') = Some 5"
  "null_aware_mean SecurityDelay sample_causes (1, ''AA'') = Some 0"
  "null_aware_mean LateAircraftDelay sample_causes (1, ''AA'') = Some (15 / 2)"
  "null_aware_mean col sample_causes (2, ''DL'') =
     (if col (blank_row\<lparr>Year := Some 2010, Month := Some 2,
                 Reporting_Airline := Some ''DL''\<rparr>) = None then None
      else Some (the (col (blank_row\<lparr>Year := Some 2010, Month := Some 2,
                 Reporting_Airline := Some ''DL''\<rparr>))))"
  by (simp_all add: null_aware_mean_def sample_causes_def blank_row_def)

theorem delay_mean_null_aware_witness:
  "delay_table Carrier (compute_data_choice_2 sample_causes) =
     [((1, ''AA''), Some 15), ((2, ''DL''), None)]
   \<and> delay_table Weather (compute_data_choice_2 sample_causes) =
     [((1, ''AA''), Some 4), ((2, ''DL''), None)]
   \<and> delay_table NAS (compute_data_choice_2 sample_causes) =
     [((1, ''AA''), Some 5), ((2, ''DL''), None)]
   \<and> delay_table Security (compute_data_choice_2 sample_causes) =
     [((1, ''AA''), Some 0), ((2, ''DL''), None)]
   \<and> delay_table LateAircraft (compute_data_choice_2 sample_causes) =
     [((1, ''AA''), Some (15 / 2)), ((2, ''DL''), None)]
   \<and> ((1, ''AA''), Some 15) \<in> set (delay_table Carrier (compute_data_choice_2 sample_causes))
   \<and> delay_table Carrier
       (compute_data_choice_2 (filter (\<lambda>r. delay_column Carrier r \<noteq> None) sample_causes)) =
     [((1, ''AA''), Some 15)]"
proof -
  have row: "\<exists>r\<in>set sample_causes. Month r = Some 1 \<and> Reporting_Airline r = Some ''AA''"
    by (simp add: sample_causes_def blank_row_def)
  have car: "delay_table Carrier (compute_data_choice_2 sample_causes) =
      [((1, ''AA''), Some 15), ((2, ''DL''), None)]"
    using delay_mean_null_aware [of Carrier sample_causes]
    by (simp add: sample_causes_keys sample_causes_means blank_row_def)
  have wea: "delay_table Weather (compute_data_choice_2 sample_causes) =
      [((1, ''AA''), Some 4), ((2, ''DL''), None)]"
    using delay_mean_null_aware [of Weather sample_causes]
    by (simp add: sample_causes_keys sample_causes_means blank_row_def)
  have nas: "delay_table NAS (compute_data_choice_2 sample_causes) =
      [((1, ''AA''), Some 5), ((2, ''DL''), None)]"
    using delay_mean_null_aware [of NAS sample_causes]
    by (simp add: sample_causes_keys sample_causes_means blank_row_def)
  have sec: "delay_table Security (compute_data_choice_2 sample_causes) =
      [((1, ''AA''), Some 0), ((2, ''DL''), None)]"
    using delay_mean_null_aware [of Security sample_causes]
    by (simp add: sample_causes_keys sample_causes_means blank_row_def)
  have late: "delay_table LateAircraft (compute_data_choice_2 sample_causes) =
      [((1, ''AA''), Some (15 / 2)), ((2, ''DL''), None)]"
    using delay_mean_null_aware [of LateAircraft sample_causes]
    by (simp add: sample_causes_keys sample_causes_means blank_row_def)
  from delay_mean_null_aware [of Carrier sample_causes] row
  have listed: "((1, ''AA''), null_aware_mean (delay_column Carrier) sample_causes (1, ''AA''))
      \<in> set (delay_table Carrier (compute_data_choice_2 sample_causes))"
    by blast
  then have listed15: "((1, ''AA''), Some 15)
      \<in> set (delay_table Carrier (compute_data_choice_2 sample_causes))"
    by (simp add: sample_causes_means)
  from delay_mean_null_aware [of Carrier sample_causes]
  have "delay_table Carrier
       (compute_data_choice_2 (filter (\<lambda>r. delay_column Carrier r \<noteq> None) sample_causes)) =
     filter (\<lambda>row. snd row \<noteq> None) (delay_table Carrier (compute_data_choice_2 sample_causes))"
    by blast
  then have dropped: "delay_table Carrier
       (compute_data_choice_2 (filter (\<lambda>r. delay_column Carrier r \<noteq> None) sample_causes)) =
     [((1, ''AA''), Some 15)]"
    by (simp only: car) simp
  from car wea nas sec late listed15 dropped show ?thesis
    by (intro conjI)
qed

section \<open>The year filter\<close>

lemma mset_filter_disjoint:
  assumes "\<forall>x\<in>set xs. \<not> (P x \<and> Q x)"
  shows "mset (filter P xs) + mset (filter Q xs) = mset (filter (\<lambda>x. P x \<or> Q x) xs)"
  using assms by (induction xs) auto

lemma mset_concat_filters:
  assumes "distinct ys"
  shows "mset (concat (map (\<lambda>y. filter (\<lambda>r. f r = Some y) xs) ys)) =
         mset (filter (\<lambda>r. \<exists>y\<in>set ys. f r = Some y) xs)"
  using assms
proof (induction ys)
  case Nil
  show ?case by simp
next
  case (Cons y ys)
  have disj: "\<forall>r\<in>set xs. \<not> (f r = Some y \<and> (\<exists>y'\<in>set ys. f r = Some y'))"
    using Cons.prems by auto
  have "mset (concat (map (\<lambda>y. filter (\<lambda>r. f r = Some y) xs) (y # ys))) =
      mset (filter (\<lambda>r. f r = Some y) xs) +
      mset (filter (\<lambda>r. \<exists>y'\<in>set ys. f r = Some y') xs)"
    using Cons by simp
  also have "\<dots> = mset (filter (\<lambda>r. f r = Some y \<or> (\<exists>y'\<in>set ys. f r = Some y')) xs)"
    by (rule mset_filter_disjoint [OF disj])
  finally show ?case by simp
qed

lemma year_filter_eq: "year_filter tbl y = filter (\<lambda>r. Year r = Some y) tbl"
  by (simp add: year_filter_def col_eq_iff)

lemma set_year_list: "set year_list = {2005 .. 2020}"
  unfolding year_list_def by (rule set_upto)

lemma distinct_year_list: "distinct year_list"
  unfolding year_list_def by (rule distinct_upto)

lemma year_filter_cover:
  "mset (concat (map (year_filter tbl) year_list)) =
   mset (filter (\<lambda>r. \<exists>y\<in>set year_list. Year r = Some y) tbl)"
proof -
  have "map (year_filter tbl) year_list =
      map (\<lambda>y. filter (\<lambda>r. Year r = Some y) tbl) year_list"
    by (simp add: year_filter_eq)
  then show ?thesis
    by (simp only: mset_concat_filters [OF distinct_year_list])
qed

text \<open>
  Claim C6, as the specification states it: for every table, the results of the year
  filter for the years 2005 to 2020 partition the table. It fails on a table that has a
  row without a year and a row of the year 2004, beside a row of 2010: the comparison
  \<^verbatim>\<open>Year == int(year)\<close> is false for both rows at every year of the list, so the filter
  results together hold the row of 2010 only.
\<close>

theorem year_filter_partition_counterexample:
  "concat (map (year_filter sample_stray_years) year_list) =
     [blank_row\<lparr>Year := Some 2010, Month := Some 3, Flights := Some 1\<rparr>]
   \<and> length sample_stray_years = 3
   \<and> mset (concat (map (year_filter sample_stray_years) year_list)) \<noteq> mset sample_stray_years"
proof -
  have none: "year_filter sample_stray_years y = []" if "y \<noteq> 2010" and "y \<noteq> 2004" for y
    using that by (simp add: year_filter_def sample_stray_years_def blank_row_def)
  have one: "year_filter sample_stray_years 2010 =
      [blank_row\<lparr>Year := Some 2010, Month := Some 3, Flights := Some 1\<rparr>]"
    by (simp add: year_filter_def sample_stray_years_def blank_row_def)
  have all: "concat (map (year_filter sample_stray_years) year_list) =
     [blank_row\<lparr>Year := Some 2010, Month := Some 3, Flights := Some 1\<rparr>]"
    by (simp add: year_list_def none one)
  have len: "length sample_stray_years = 3"
    by (simp add: sample_stray_years_def)
  have small: "size (mset (concat (map (year_filter sample_stray_years) year_list))) = 1"
    by (simp only: all) simp
  have large: "size (mset sample_stray_years) = 3"
    by (simp only: size_mset len)
  have "mset (concat (map (year_filter sample_stray_years) year_list))
      \<noteq> mset sample_stray_years"
  proof
    assume "mset (concat (map (year_filter sample_stray_years) year_list))
      = mset sample_stray_years"
    then have "size (mset (concat (map (year_filter sample_stray_years) year_list)))
      = size (mset sample_stray_years)"
      by (rule arg_cong)
    with small large show False
      by simp
  qed
  with all len show ?thesis
    by (intro conjI)
qed

text \<open>
  Claim C6, amended: for every table and every year, the year filter returns the rows
  whose \<^verbatim>\<open>Year\<close> is the selected year, each row as it is in the table (all columns), in
  table order. The results for two different years share no row, and the results for the
  years 2005 to 2020 together hold exactly the rows whose year is present and is one of
  them, as often as the table has them; rows without a year or with a year outside 2005
  to 2020 are in no result. The filter results partition the table when every row of
  the table has a year from 2005 to 2020 (the invariant of the data model).
\<close>

theorem year_filter_partition:
  "year_filter tbl y = filter (\<lambda>r. Year r = Some y) tbl
   \<and> set (year_filter tbl y) = {r. r \<in> set tbl \<and> Year r = Some y}
   \<and> subseq (year_filter tbl y) tbl
   \<and> (y \<noteq> y' \<longrightarrow> set (year_filter tbl y) \<inter> set (year_filter tbl y') = {})
   \<and> mset (concat (map (year_filter tbl) year_list)) =
       mset (filter (\<lambda>r. \<exists>x. 2005 \<le> x \<and> x \<le> 2020 \<and> Year r = Some x) tbl)
   \<and> ((\<forall>r\<in>set tbl. \<exists>x. 2005 \<le> x \<and> x \<le> 2020 \<and> Year r = Some x) \<longrightarrow>
        mset (concat (map (year_filter tbl) year_list)) = mset tbl)"
proof -
  have valid: "(\<exists>x\<in>set year_list. Year r = Some x) \<longleftrightarrow>
      (\<exists>x. 2005 \<le> x \<and> x \<le> 2020 \<and> Year r = Some x)" for r :: FlightRecord
    by (auto simp: set_year_list)
  have cover: "mset (concat (map (year_filter tbl) year_list)) =
       mset (filter (\<lambda>r. \<exists>x. 2005 \<le> x \<and> x \<le> 2020 \<and> Year r = Some x) tbl)"
    by (simp only: year_filter_cover valid)
  have whole: "filter (\<lambda>r. \<exists>x. 2005 \<le> x \<and> x \<le> 2020 \<and> Year r = Some x) tbl = tbl"
    if "\<forall>r\<in>set tbl. \<exists>x. 2005 \<le> x \<and> x \<le> 2020 \<and> Year r = Some x"
    using that by (simp only: filter_id_conv)
  have disjoint: "set (year_filter tbl y) \<inter> set (year_filter tbl y') = {}" if "y \<noteq> y'"
    using that by (auto simp: year_filter_eq)
  have members: "set (year_filter tbl y) = {r. r \<in> set tbl \<and> Year r = Some y}"
    by (simp add: year_filter_eq)
  have order: "subseq (year_filter tbl y) tbl"
    by (simp add: year_filter_eq)
  show ?thesis
  proof (intro conjI impI)
    show "year_filter tbl y = filter (\<lambda>r. Year r = Some y) tbl"
      by (rule year_filter_eq)
    show "set (year_filter tbl y) = {r. r \<in> set tbl \<and> Year r = Some y}"
      by (rule members)
    show "subseq (year_filter tbl y) tbl"
      by (rule order)
    show "set (year_filter tbl y) \<inter> set (year_filter tbl y') = {}" if "y \<noteq> y'"
      using that by (rule disjoint)
    show "mset (concat (map (year_filter tbl) year_list)) =
       mset (filter (\<lambda>r. \<exists>x. 2005 \<le> x \<and> x \<le> 2020 \<and> Year r = Some x) tbl)"
      by (rule cover)
    show "mset (concat (map (year_filter tbl) year_list)) = mset tbl"
      if "\<forall>r\<in>set tbl. \<exists>x. 2005 \<le> x \<and> x \<le> 2020 \<and> Year r = Some x"
      by (simp only: cover whole [OF that])
  qed
qed

theorem year_filter_partition_witness:
  "year_filter sample_years 2010 =
     [blank_row\<lparr>Year := Some 2010, Month := Some 3, Flights := Some 1\<rparr>,
      blank_row\<lparr>Year := Some 2010, Month := Some 1, Flights := Some 1\<rparr>]
   \<and> set (year_filter sample_years 2010) \<inter> set (year_filter sample_years 2005) = {}
   \<and> mset (concat (map (year_filter sample_years) year_list)) = mset sample_years"
proof -
  have valid: "\<forall>r\<in>set sample_years. \<exists>x. 2005 \<le> x \<and> x \<le> 2020 \<and> Year r = Some x"
    by (simp add: sample_years_def blank_row_def)
  have rows: "filter (\<lambda>r. Year r = Some 2010) sample_years =
     [blank_row\<lparr>Year := Some 2010, Month := Some 3, Flights := Some 1\<rparr>,
      blank_row\<lparr>Year := Some 2010, Month := Some 1, Flights := Some 1\<rparr>]"
    by (simp add: sample_years_def blank_row_def)
  have ne: "(2010::int) \<noteq> 2005"
    by simp
  note part = year_filter_partition [of sample_years 2010 2005]
  from part have "year_filter sample_years 2010 = filter (\<lambda>r. Year r = Some 2010) sample_years"
    by (rule conjunct1)
  then have kept: "year_filter sample_years 2010 =
     [blank_row\<lparr>Year := Some 2010, Month := Some 3, Flights := Some 1\<rparr>,
      blank_row\<lparr>Year := Some 2010, Month := Some 1, Flights := Some 1\<rparr>]"
    by (simp only: rows)
  from part ne
  have apart: "set (year_filter sample_years 2010) \<inter> set (year_filter sample_years 2005) = {}"
    by blast
  from part valid
  have whole: "mset (concat (map (year_filter sample_years) year_list)) = mset sample_years"
    by blast
  from kept apart whole show ?thesis
    by (intro conjI)
qed

section \<open>The callback and its two selectors\<close>

lemma figures_differ: "performance_figures t \<noteq> delay_figures u"
  by (cases t; cases u) (simp add: performance_figures_def delay_figures_def)

text \<open>
  Claim C2, as the specification states it: when the report type or the year is unset,
  the year filter and the aggregators do not run. It fails when only the report type is
  unset: with the year 2010 selected, \<^verbatim>\<open>get_graph\<close> filters the table, runs
  \<^verbatim>\<open>compute_data_choice_2\<close> and returns the five delay charts with the means it computed.
\<close>

theorem get_graph_unset_selector_counterexample:
  "get_graph sample_delays None (Some 2010) [] [] [] [] [] =
     Inr (delay_figures
       ([((1, ''AA''), Some 15), ((1, ''DL''), None)],
        [((1, ''AA''), None), ((1, ''DL''), None)],
        [((1, ''AA''), None), ((1, ''DL''), None)],
        [((1, ''AA''), None), ((1, ''DL''), None)],
        [((1, ''AA''), None), ((1, ''DL''), None)]))"
  by (simp add: get_graph_def int_of_year_def year_filter_def sample_delays_def blank_row_def
      compute_data_choice_2_def groupby_mean_def group_keys_def group_rows_def key2_def
      series_mean_def less_eq_prod_def less_prod_def)

text \<open>
  Claim C2, amended: when the year is unset the year filter and the aggregators do not
  run, whatever the report type: \<^verbatim>\<open>int(year)\<close> raises \<^verbatim>\<open>TypeError\<close> first. When a year is
  selected and only the report type is unset, the year filter and
  \<^verbatim>\<open>compute_data_choice_2\<close> run and the five delay charts are returned.
\<close>

theorem get_graph_unset_selector:
  "get_graph airline_data chart None children1 children2 c3 c4 c5 = Inl TypeError
   \<and> get_graph airline_data None (Some y) children1 children2 c3 c4 c5 =
       Inr (delay_figures (compute_data_choice_2 (year_filter airline_data y)))"
  by (simp add: get_graph_def int_of_year_def)

text \<open>
  Claim C10, as stated: whenever the report type is not \<^verbatim>\<open>"OPT1"\<close>, \<^verbatim>\<open>get_graph\<close> takes
  the delay branch and returns the five delay charts. It fails for the report type
  \<^verbatim>\<open>"OPT2"\<close> with no year selected: \<^verbatim>\<open>int(year)\<close> raises before the branch is reached.
\<close>

theorem get_graph_branch_counterexample:
  "get_graph sample_delays (Some ''OPT2'') None [] [] [] [] [] = Inl TypeError"
  by (simp add: get_graph_def int_of_year_def)

text \<open>
  Claim C10, amended: for every call with a year selected, \<^verbatim>\<open>get_graph\<close> returns the
  five performance charts of \<^verbatim>\<open>compute_data_choice_1\<close> when the report type is exactly
  \<^verbatim>\<open>"OPT1"\<close>, and the five delay charts of \<^verbatim>\<open>compute_data_choice_2\<close> for every other
  report type, an unset one and an unknown one included; the two lists of charts are
  never equal, so the performance charts come out only for \<^verbatim>\<open>"OPT1"\<close>.
\<close>

theorem get_graph_branch:
  "get_graph airline_data chart (Some y) children1 children2 c3 c4 c5 =
     (if chart = Some ''OPT1''
      then Inr (performance_figures (compute_data_choice_1 (year_filter airline_data y)))
      else Inr (delay_figures (compute_data_choice_2 (year_filter airline_data y))))
   \<and> (get_graph airline_data chart (Some y) children1 children2 c3 c4 c5 =
        Inr (performance_figures (compute_data_choice_1 (year_filter airline_data y)))
      \<longleftrightarrow> chart = Some ''OPT1'')
   \<and> (get_graph airline_data chart (Some y) children1 children2 c3 c4 c5 =
        Inr (delay_figures (compute_data_choice_2 (year_filter airline_data y)))
      \<longleftrightarrow> chart \<noteq> Some ''OPT1'')
   \<and> get_graph airline_data None (Some y) children1 children2 c3 c4 c5 =
        Inr (delay_figures (compute_data_choice_2 (year_filter airline_data y)))
   \<and> get_graph airline_data (Some ''OPT3'') (Some y) children1 children2 c3 c4 c5 =
        Inr (delay_figures (compute_data_choice_2 (year_filter airline_data y)))"
  using figures_differ
    [of "compute_data_choice_1 (year_filter airline_data y)"
        "compute_data_choice_2 (year_filter airline_data y)"]
  by (auto simp: get_graph_def int_of_year_def)

end
